theory Spec2Isabelle
  imports Complex_Main
begin

section \<open>Hostel management backend: the relational state and its route handlers\<close>

text \<open>
  The Express route handlers of \<^verbatim>\<open>src/server/routes\<close> are embedded as functions from a
  request and a database state to a result and a new database state. A table is the list
  of its rows; \<^verbatim>\<open>SELECT ... WHERE c\<close> is \<open>filter\<close>, \<^verbatim>\<open>UPDATE ... SET ... WHERE c\<close> is a
  \<open>map\<close> that rewrites the rows satisfying \<open>c\<close>, and \<^verbatim>\<open>INSERT\<close> appends a row. No
  constraint of the storage layer (unique keys, foreign keys) is assumed: the schema is not
  part of the sources, so only the checks the handlers make themselves are modelled.
  The statements of one handler run in sequence on one connection, as the awaits do.

  The handlers reach the database through \<^verbatim>\<open>db.promise().execute(sql, values)\<close>, which
  throws when \<open>values\<close> holds \<^verbatim>\<open>undefined\<close> (SQL \<^verbatim>\<open>NULL\<close> is passed as \<^verbatim>\<open>null\<close>).
  The exception leaves the statement unexecuted and lands in the handler's \<^verbatim>\<open>catch\<close>,
  which answers with status 500.
\<close>

subsection \<open>Results\<close>

text \<open>
  A handler that answers \<^verbatim>\<open>res.status(c).json({success: false, message: m})\<close> returns
  \<open>Inl (Failure k c m)\<close>, where \<open>c\<close> and \<open>m\<close> are the status code and message of the
  source and \<open>k\<close> is the error kind under which the error taxonomy files that answer
  (a missing row is \<open>NotFound\<close>, a business rule that rejects the request is \<open>Conflict\<close>,
  a role check is \<open>Forbidden\<close>, a malformed request is \<open>InvalidInput\<close>); the answer of a
  \<^verbatim>\<open>catch\<close> block is \<open>ServerError\<close>.
\<close>

datatype error_kind = InvalidInput | NotFound | Forbidden | Conflict | ServerError

datatype failure = Failure (kind: error_kind) (status: nat) (message: string)

subsection \<open>Values of a request body\<close>

text \<open>
  A field of \<^verbatim>\<open>req.body\<close> is absent (\<^verbatim>\<open>undefined\<close>), \<^verbatim>\<open>null\<close>, or a string.
  \<open>truthy\<close> is the test of \<^verbatim>\<open>if (v)\<close>; \<open>to_sql\<close> is the value a bound parameter
  stores in a nullable text column. No handler below binds \<open>Undefined\<close>: either a guard
  of the source or the exception of \<^verbatim>\<open>execute\<close> comes first.
\<close>

datatype jsval = Undefined | Null | Str string

fun truthy :: "jsval \<Rightarrow> bool" where
  "truthy Undefined = False"
| "truthy Null = False"
| "truthy (Str s) = (s \<noteq> [])"

fun to_sql :: "jsval \<Rightarrow> string option" where
  "to_sql Undefined = None"
| "to_sql Null = None"
| "to_sql (Str s) = Some s"

text \<open>The truthiness test applied to a nullable text column read back from a row.\<close>

fun truthy_col :: "string option \<Rightarrow> bool" where
  "truthy_col None = False"
| "truthy_col (Some s) = (s \<noteq> [])"

subsection \<open>Tables\<close>

text \<open>A calendar day is its day number; \<^verbatim>\<open>CURDATE()\<close> and the handler's \<^verbatim>\<open>today\<close> are
  passed in by the caller.\<close>

type_synonym date = int

datatype role = Admin | Student

record user =
  u_id :: int
  u_name :: string
  u_email :: string
  u_password :: string
  u_role :: role
  u_room_no :: "string option"
  u_batch :: "string option"
  u_phone :: "string option"
  u_photo :: "string option"
  u_is_active :: bool

record room =
  r_id :: int
  r_room_no :: string
  r_capacity :: int
  r_type :: string
  r_floor :: "string option"
  r_occupied :: int
  r_is_active :: bool

datatype att_status = Present | Late | Absent

record attendance_row =
  a_user_id :: int
  a_date :: date
  a_status :: att_status
  a_check_in_time :: "string option"
  a_check_out_time :: "string option"

datatype fee_status = Pending | Paid | Overdue

record fee =
  f_id :: int
  f_user_id :: int
  f_amount :: int
  f_fee_type :: string
  f_due_date :: date
  f_status :: fee_status
  f_paid_date :: "date option"
  f_receipt_no :: "string option"

record db =
  users :: "user list"
  rooms :: "room list"
  attendance :: "attendance_row list"
  fees :: "fee list"
  next_user_id :: int
  next_room_id :: int

subsection \<open>Fee ledger: the fee routes\<close>

text \<open>The fee router is the second module of \<^verbatim>\<open>src/server/routes/chatbot.js\<close>.\<close>

text \<open>
  \<^verbatim>\<open>PUT /:id/pay\<close>. The body carries \<^verbatim>\<open>paidDate\<close> and \<^verbatim>\<open>receiptNo\<close>;
  \<open>None\<close> for \<open>paidDate\<close> stands for any falsy value, so that
  \<^verbatim>\<open>paidDate || today\<close> is \<open>case paidDate of None \<Rightarrow> today | Some d \<Rightarrow> d\<close>.
  \<^verbatim>\<open>receiptNo\<close> is bound as it comes: absent, it makes the \<^verbatim>\<open>UPDATE\<close> throw.
\<close>

record pay_body =
  paidDate :: "date option"
  receiptNo :: jsval

definition set_paid :: "int \<Rightarrow> date \<Rightarrow> string option \<Rightarrow> fee \<Rightarrow> fee" where
  "set_paid i d rn f =
     (if f_id f = i then f\<lparr>f_status := Paid, f_paid_date := Some d, f_receipt_no := rn\<rparr>
      else f)"

text \<open>\<^verbatim>\<open>SELECT * FROM fees WHERE id = ?\<close>\<close>

definition select_fee :: "int \<Rightarrow> db \<Rightarrow> fee list" where
  "select_fee i s = filter (\<lambda>f. f_id f = i) (fees s)"

definition pay :: "date \<Rightarrow> int \<Rightarrow> pay_body \<Rightarrow> db \<Rightarrow> (failure + string) \<times> db" where
  "pay today i body s =
     (case select_fee i s of
        [] \<Rightarrow> (Inl (Failure NotFound 404 ''Fee not found''), s)
      | fee0 # _ \<Rightarrow>
          if f_status fee0 = Paid
          then (Inl (Failure Conflict 400 ''Fee is already paid''), s)
          else if receiptNo body = Undefined
          then (Inl (Failure ServerError 500 ''Failed to mark fee as paid''), s)
          else (Inr ''Fee marked as paid successfully'',
                s\<lparr>fees := map (set_paid i
                       (case paidDate body of None \<Rightarrow> today | Some d \<Rightarrow> d)
                       (to_sql (receiptNo body))) (fees s)\<rparr>))"

text \<open>
  \<^verbatim>\<open>PUT /update-overdue\<close>: one \<^verbatim>\<open>UPDATE fees SET status = 'overdue' WHERE status =
  'pending' AND due_date < CURDATE()\<close>. The payload is \<^verbatim>\<open>affectedRows\<close>.
\<close>

definition is_past_due :: "date \<Rightarrow> fee \<Rightarrow> bool" where
  "is_past_due today f \<longleftrightarrow> f_status f = Pending \<and> f_due_date f < today"

definition mark_overdue :: "date \<Rightarrow> fee \<Rightarrow> fee" where
  "mark_overdue today f = (if is_past_due today f then f\<lparr>f_status := Overdue\<rparr> else f)"

definition update_overdue :: "date \<Rightarrow> db \<Rightarrow> (failure + nat) \<times> db" where
  "update_overdue today s =
     (Inr (length (filter (is_past_due today) (fees s))),
      s\<lparr>fees := map (mark_overdue today) (fees s)\<rparr>)"

text \<open>A small ledger used to run the handlers: one fee of each kind.\<close>

definition fee_example :: "int \<Rightarrow> date \<Rightarrow> fee_status \<Rightarrow> fee" where
  "fee_example i d st =
     \<lparr>f_id = i, f_user_id = 7, f_amount = 1500, f_fee_type = ''monthly'', f_due_date = d,
      f_status = st, f_paid_date = None, f_receipt_no = None\<rparr>"

definition ledger_example :: db where
  "ledger_example =
     \<lparr>users = [], rooms = [], attendance = [],
      fees = [fee_example 1 99 Pending, fee_example 2 99 Paid, fee_example 3 50 Overdue,
              fee_example 4 100 Pending],
      next_user_id = 1, next_room_id = 1\<rparr>"

subsection \<open>Occupancy: the room routes (\<^verbatim>\<open>src/server/routes/rooms.js\<close>)\<close>

text \<open>
  \<^verbatim>\<open>POST /\<close> (create room), behind \<^verbatim>\<open>requireAdmin\<close>. The validators demand a non-empty
  \<^verbatim>\<open>room_no\<close>, an integer \<^verbatim>\<open>capacity\<close> from 1 to 10 and a \<^verbatim>\<open>type\<close> among single,
  double, triple and quad. The \<^verbatim>\<open>INSERT\<close> names four columns; the others take their
  column defaults. \<^verbatim>\<open>floor\<close> is bound as it comes: absent, it makes the \<^verbatim>\<open>INSERT\<close>
  throw.
\<close>

record room_body =
  rb_room_no :: string
  rb_capacity :: "int option"
  rb_type :: string
  rb_floor :: jsval

text \<open>
  Modelled from the spec: the column defaults of \<^verbatim>\<open>rooms.occupied\<close> and
  \<^verbatim>\<open>rooms.is_active\<close> (the schema is not in the sources): a room is created active with
  no occupants.
\<close>

definition new_room :: "int \<Rightarrow> string \<Rightarrow> int \<Rightarrow> string \<Rightarrow> string option \<Rightarrow> room" where
  "new_room i rn c t fl =
     \<lparr>r_id = i, r_room_no = rn, r_capacity = c, r_type = t, r_floor = fl,
      r_occupied = 0, r_is_active = True\<rparr>"

definition create_room :: "room_body \<Rightarrow> db \<Rightarrow> (failure + int) \<times> db" where
  "create_room body s =
     (case rb_capacity body of
        None \<Rightarrow> (Inl (Failure InvalidInput 400 ''Validation failed''), s)
      | Some c \<Rightarrow>
          if rb_room_no body = [] \<or> c < 1 \<or> 10 < c
             \<or> rb_type body \<notin> {''single'', ''double'', ''triple'', ''quad''}
          then (Inl (Failure InvalidInput 400 ''Validation failed''), s)
          else if filter (\<lambda>r. r_room_no r = rb_room_no body) (rooms s) \<noteq> []
          then (Inl (Failure Conflict 400 ''Room already exists''), s)
          else if rb_floor body = Undefined
          then (Inl (Failure ServerError 500 ''Failed to create room''), s)
          else (Inr (next_room_id s),
                s\<lparr>rooms := rooms s @
                       [new_room (next_room_id s) (rb_room_no body) c (rb_type body)
                          (to_sql (rb_floor body))],
                  next_room_id := next_room_id s + 1\<rparr>))"

text \<open>
  \<^verbatim>\<open>POST /:roomId/assign\<close>, behind \<^verbatim>\<open>requireAdmin\<close>. \<open>studentId = None\<close> is a body
  whose \<^verbatim>\<open>studentId\<close> fails \<^verbatim>\<open>isInt()\<close>.
\<close>

record assign_body =
  studentId :: "int option"

text \<open>\<^verbatim>\<open>UPDATE users SET room_no = ? WHERE id = ?\<close>\<close>

definition set_user_room :: "int \<Rightarrow> string option \<Rightarrow> user \<Rightarrow> user" where
  "set_user_room i rn u = (if u_id u = i then u\<lparr>u_room_no := rn\<rparr> else u)"

text \<open>\<^verbatim>\<open>UPDATE rooms SET occupied = occupied + d WHERE id = ?\<close>\<close>

definition add_occupied_by_id :: "int \<Rightarrow> int \<Rightarrow> room \<Rightarrow> room" where
  "add_occupied_by_id i d r = (if r_id r = i then r\<lparr>r_occupied := r_occupied r + d\<rparr> else r)"

text \<open>\<^verbatim>\<open>UPDATE rooms SET occupied = occupied + d WHERE room_no = ?\<close>\<close>

definition add_occupied_by_no :: "string \<Rightarrow> int \<Rightarrow> room \<Rightarrow> room" where
  "add_occupied_by_no rn d r =
     (if r_room_no r = rn then r\<lparr>r_occupied := r_occupied r + d\<rparr> else r)"

text \<open>\<^verbatim>\<open>SELECT room_no, capacity, occupied FROM rooms WHERE id = ? AND is_active = TRUE\<close>\<close>

definition select_active_room :: "int \<Rightarrow> db \<Rightarrow> room list" where
  "select_active_room i s = filter (\<lambda>r. r_id r = i \<and> r_is_active r) (rooms s)"

text \<open>\<^verbatim>\<open>SELECT id, room_no FROM users WHERE id = ? AND role = "student" AND is_active = TRUE\<close>\<close>

definition select_active_student :: "int \<Rightarrow> db \<Rightarrow> user list" where
  "select_active_student i s =
     filter (\<lambda>u. u_id u = i \<and> u_role u = Student \<and> u_is_active u) (users s)"

definition assign :: "int \<Rightarrow> assign_body \<Rightarrow> db \<Rightarrow> (failure + string) \<times> db" where
  "assign roomId body s =
     (case studentId body of
        None \<Rightarrow> (Inl (Failure InvalidInput 400 ''Validation failed''), s)
      | Some sid \<Rightarrow>
          (case select_active_room roomId s of
             [] \<Rightarrow> (Inl (Failure NotFound 404 ''Room not found''), s)
           | room0 # _ \<Rightarrow>
               if r_occupied room0 \<ge> r_capacity room0
               then (Inl (Failure Conflict 400 ''Room is full''), s)
               else
                 (case select_active_student sid s of
                    [] \<Rightarrow> (Inl (Failure NotFound 404 ''Student not found''), s)
                  | student # _ \<Rightarrow>
                      if truthy_col (u_room_no student)
                      then (Inl (Failure Conflict 400 ''Student is already assigned to a room''), s)
                      else (Inr ''Room assigned successfully'',
                            s\<lparr>users := map (set_user_room sid (Some (r_room_no room0))) (users s),
                              rooms := map (add_occupied_by_id roomId 1) (rooms s)\<rparr>))))"

text \<open>
  \<^verbatim>\<open>POST /:roomId/unassign\<close>, behind \<^verbatim>\<open>requireAdmin\<close>. The room is looked up by id alone;
  the student by \<^verbatim>\<open>id = ? AND room_no = ?\<close>, which a \<^verbatim>\<open>NULL\<close> room number never
  satisfies.
\<close>

definition select_room :: "int \<Rightarrow> db \<Rightarrow> room list" where
  "select_room i s = filter (\<lambda>r. r_id r = i) (rooms s)"

definition select_user_in_room :: "int \<Rightarrow> string \<Rightarrow> db \<Rightarrow> user list" where
  "select_user_in_room i rn s = filter (\<lambda>u. u_id u = i \<and> u_room_no u = Some rn) (users s)"

definition unassign :: "int \<Rightarrow> assign_body \<Rightarrow> db \<Rightarrow> (failure + string) \<times> db" where
  "unassign roomId body s =
     (case studentId body of
        None \<Rightarrow> (Inl (Failure InvalidInput 400 ''Validation failed''), s)
      | Some sid \<Rightarrow>
          (case select_room roomId s of
             [] \<Rightarrow> (Inl (Failure NotFound 404 ''Room not found''), s)
           | room0 # _ \<Rightarrow>
               (case select_user_in_room sid (r_room_no room0) s of
                  [] \<Rightarrow> (Inl (Failure Conflict 400 ''Student is not assigned to this room''), s)
                | _ # _ \<Rightarrow>
                    (Inr ''Student removed from room successfully'',
                     s\<lparr>users := map (set_user_room sid None) (users s),
                       rooms := map (add_occupied_by_id roomId (- 1)) (rooms s)\<rparr>))))"

subsection \<open>Occupancy: the user routes (\<^verbatim>\<open>src/server/routes/users.js\<close>)\<close>

text \<open>
  \<^verbatim>\<open>POST /\<close> (create user), behind \<^verbatim>\<open>requireAdmin\<close>. The validators demand a non-empty
  name, an e-mail address (\<^verbatim>\<open>isEmail\<close>, a parameter here), a password of at least six
  characters and a role among admin and student (\<open>cu_role = None\<close> is any other value).
  \<^verbatim>\<open>bcrypt.hash\<close> is the parameter \<open>hash\<close>. \<^verbatim>\<open>room_no\<close>, \<^verbatim>\<open>batch\<close> and
  \<^verbatim>\<open>phone\<close> are bound as they come: if one of them is absent the \<^verbatim>\<open>INSERT\<close> throws,
  no row is inserted and no count is raised.
\<close>

record create_user_body =
  cu_name :: string
  cu_email :: string
  cu_password :: string
  cu_role :: "role option"
  cu_room_no :: jsval
  cu_batch :: jsval
  cu_phone :: jsval

text \<open>
  Modelled from the spec: the column defaults of \<^verbatim>\<open>users.is_active\<close> and
  \<^verbatim>\<open>users.photo\<close> (the schema is not in the sources): a user is created active, without
  a photo.
\<close>

definition new_user :: "int \<Rightarrow> string \<Rightarrow> role \<Rightarrow> create_user_body \<Rightarrow> user" where
  "new_user i hashed r body =
     \<lparr>u_id = i, u_name = cu_name body, u_email = cu_email body, u_password = hashed,
      u_role = r, u_room_no = to_sql (cu_room_no body), u_batch = to_sql (cu_batch body),
      u_phone = to_sql (cu_phone body), u_photo = None, u_is_active = True\<rparr>"

fun str_of :: "jsval \<Rightarrow> string" where
  "str_of (Str s) = s"
| "str_of Undefined = []"
| "str_of Null = []"

definition create_user ::
  "(string \<Rightarrow> bool) \<Rightarrow> (string \<Rightarrow> string) \<Rightarrow> create_user_body \<Rightarrow> db \<Rightarrow> (failure + int) \<times> db"
where
  "create_user isEmail hash body s =
     (case cu_role body of
        None \<Rightarrow> (Inl (Failure InvalidInput 400 ''Validation failed''), s)
      | Some r \<Rightarrow>
          if cu_name body = [] \<or> \<not> isEmail (cu_email body) \<or> length (cu_password body) < 6
          then (Inl (Failure InvalidInput 400 ''Validation failed''), s)
          else if filter (\<lambda>u. u_email u = cu_email body) (users s) \<noteq> []
          then (Inl (Failure Conflict 400 ''User already exists with this email''), s)
          else if cu_room_no body = Undefined \<or> cu_batch body = Undefined
                  \<or> cu_phone body = Undefined
          then (Inl (Failure ServerError 500 ''Failed to create user''), s)
          else
            (let s1 = s\<lparr>users := users s @ [new_user (next_user_id s) (hash (cu_password body)) r body],
                         next_user_id := next_user_id s + 1\<rparr>;
                 s2 = (if truthy (cu_room_no body)
                       then s1\<lparr>rooms := map (add_occupied_by_no (str_of (cu_room_no body)) 1) (rooms s1)\<rparr>
                       else s1)
             in (Inr (next_user_id s), s2)))"

text \<open>
  \<^verbatim>\<open>PUT /:id\<close> (update user), behind \<^verbatim>\<open>authenticateToken\<close> only. \<open>requester\<close> is
  \<^verbatim>\<open>req.user\<close>; \<open>uu_file\<close> is \<^verbatim>\<open>req.file.filename\<close> when a photo was uploaded.
  \<open>update_fields\<close> is the list \<^verbatim>\<open>updateFields\<close> with its \<^verbatim>\<open>values\<close>: one row update per
  \<^verbatim>\<open>column = ?\<close> pushed, in the order of the source.
\<close>

record requester =
  req_id :: int
  req_role :: role

record update_user_body =
  uu_name :: jsval
  uu_email :: jsval
  uu_room_no :: jsval
  uu_batch :: jsval
  uu_phone :: jsval
  uu_is_active :: "bool option"
  uu_file :: "string option"

definition update_fields :: "role \<Rightarrow> update_user_body \<Rightarrow> (user \<Rightarrow> user) list" where
  "update_fields userRole body =
     (if truthy (uu_name body) then [\<lambda>u. u\<lparr>u_name := str_of (uu_name body)\<rparr>] else [])
     @ (if truthy (uu_email body) then [\<lambda>u. u\<lparr>u_email := str_of (uu_email body)\<rparr>] else [])
     @ (if uu_room_no body \<noteq> Undefined then [\<lambda>u. u\<lparr>u_room_no := to_sql (uu_room_no body)\<rparr>] else [])
     @ (if truthy (uu_batch body) then [\<lambda>u. u\<lparr>u_batch := to_sql (uu_batch body)\<rparr>] else [])
     @ (if truthy (uu_phone body) then [\<lambda>u. u\<lparr>u_phone := to_sql (uu_phone body)\<rparr>] else [])
     @ (case uu_is_active body of
          Some b \<Rightarrow> if userRole = Admin then [\<lambda>u. u\<lparr>u_is_active := b\<rparr>] else []
        | None \<Rightarrow> [])
     @ (case uu_file body of Some fn \<Rightarrow> [\<lambda>u. u\<lparr>u_photo := Some fn\<rparr>] | None \<Rightarrow> [])"

text \<open>\<^verbatim>\<open>UPDATE users SET ... WHERE id = ?\<close> with the fields collected.\<close>

definition apply_fields :: "int \<Rightarrow> (user \<Rightarrow> user) list \<Rightarrow> user \<Rightarrow> user" where
  "apply_fields i fs u = (if u_id u = i then fold (\<lambda>f v. f v) fs u else u)"

text \<open>The block \<^verbatim>\<open>// Handle room assignment changes (Admin only)\<close>.\<close>

definition adjust_occupancy :: "string option \<Rightarrow> jsval \<Rightarrow> room list \<Rightarrow> room list" where
  "adjust_occupancy oldRoom room_no rs =
     (let rs1 = (case oldRoom of
                   None \<Rightarrow> rs
                 | Some r \<Rightarrow> if r \<noteq> [] then map (add_occupied_by_no r (- 1)) rs else rs)
      in if truthy room_no then map (add_occupied_by_no (str_of room_no) 1) rs1 else rs1)"

definition update_user :: "requester \<Rightarrow> int \<Rightarrow> update_user_body \<Rightarrow> db \<Rightarrow> (failure + string) \<times> db"
where
  "update_user ru i body s =
     (if req_role ru = Student \<and> i \<noteq> req_id ru
      then (Inl (Failure Forbidden 403 ''Access denied''), s)
      else
        (case filter (\<lambda>u. u_id u = i) (users s) of
           [] \<Rightarrow> (Inl (Failure NotFound 404 ''User not found''), s)
         | currentUser # _ \<Rightarrow>
             if truthy (uu_email body) \<and> str_of (uu_email body) \<noteq> u_email currentUser
                \<and> filter (\<lambda>u. u_email u = str_of (uu_email body) \<and> u_id u \<noteq> i) (users s) \<noteq> []
             then (Inl (Failure Conflict 400 ''Email already exists''), s)
             else if update_fields (req_role ru) body = []
             then (Inl (Failure InvalidInput 400 ''No fields to update''), s)
             else
               (let s1 = s\<lparr>users := map (apply_fields i (update_fields (req_role ru) body)) (users s)\<rparr>;
                    s2 = (if req_role ru = Admin \<and> uu_room_no body \<noteq> Undefined
                          then s1\<lparr>rooms := adjust_occupancy (u_room_no currentUser) (uu_room_no body)
                                              (rooms s1)\<rparr>
                          else s1)
                in (Inr ''User updated successfully'', s2))))"

subsection \<open>Attendance: the attendance routes\<close>

text \<open>The attendance router is the second module of \<^verbatim>\<open>src/server/routes/announcements.js\<close>.\<close>

text \<open>
  The clock. \<^verbatim>\<open>new Date().toTimeString().split(' ')[0]\<close> is the local time of day as
  the eight characters \<^verbatim>\<open>HH:MM:SS\<close>, each number written with two decimal digits.
\<close>

definition digit :: "nat \<Rightarrow> char" where
  "digit n = char_of (48 + n)"

definition pad2 :: "nat \<Rightarrow> string" where
  "pad2 n = [digit (n div 10), digit (n mod 10)]"

definition time_string :: "nat \<Rightarrow> nat \<Rightarrow> nat \<Rightarrow> string" where
  "time_string h m sec = pad2 h @ '':'' @ pad2 m @ '':'' @ pad2 sec"

text \<open>
  The relational operator \<^verbatim>\<open>a > b\<close> on two strings compares them code unit by code unit;
  a proper prefix is the smaller string. \<open>js_gt a b\<close> is \<^verbatim>\<open>a > b\<close>.
\<close>

fun js_gt :: "string \<Rightarrow> string \<Rightarrow> bool" where
  "js_gt [] ys = False"
| "js_gt (x # xs) [] = True"
| "js_gt (x # xs) (y # ys) =
     ((of_char y :: nat) < of_char x \<or> (of_char x = (of_char y :: nat) \<and> js_gt xs ys))"

text \<open>
  \<^verbatim>\<open>POST /mark\<close>, behind \<^verbatim>\<open>requireAnyRole\<close>. The body field \<^verbatim>\<open>qrData\<close> is empty
  (\<open>QrEmpty\<close>, rejected by the validator), a string \<^verbatim>\<open>JSON.parse\<close> throws on
  (\<open>QrUnparsable\<close>), or the text of an object whose fields \<^verbatim>\<open>userId\<close>, \<^verbatim>\<open>name\<close> and
  \<^verbatim>\<open>email\<close> are read. \<open>qr_userId = None\<close> is an absent \<^verbatim>\<open>userId\<close>; the number 0 is
  falsy as well.
\<close>

record qr_payload =
  qr_userId :: "int option"
  qr_name :: jsval
  qr_email :: jsval

datatype qr_input = QrEmpty | QrUnparsable | QrParsed qr_payload

record mark_result =
  mr_status :: att_status
  mr_time :: string
  mr_isLate :: bool

text \<open>\<^verbatim>\<open>SELECT id FROM attendance WHERE user_id = ? AND date = ?\<close>\<close>

definition select_attendance :: "int \<Rightarrow> date \<Rightarrow> db \<Rightarrow> attendance_row list" where
  "select_attendance uid d s = filter (\<lambda>a. a_user_id a = uid \<and> a_date a = d) (attendance s)"

definition mark :: "requester \<Rightarrow> qr_input \<Rightarrow> date \<Rightarrow> string \<Rightarrow> db \<Rightarrow> (failure + mark_result) \<times> db"
where
  "mark currentUser qrData today currentTime s =
     (case qrData of
        QrEmpty \<Rightarrow> (Inl (Failure InvalidInput 400 ''Validation failed''), s)
      | QrUnparsable \<Rightarrow> (Inl (Failure InvalidInput 400 ''Invalid QR code data''), s)
      | QrParsed q \<Rightarrow>
          (case qr_userId q of
             None \<Rightarrow> (Inl (Failure InvalidInput 400 ''Invalid QR code format''), s)
           | Some uid \<Rightarrow>
               if uid = 0 \<or> \<not> truthy (qr_name q) \<or> \<not> truthy (qr_email q)
               then (Inl (Failure InvalidInput 400 ''Invalid QR code format''), s)
               else if req_role currentUser = Student \<and> uid \<noteq> req_id currentUser
               then (Inl (Failure Forbidden 403 ''QR code does not belong to you''), s)
               else if select_attendance uid today s \<noteq> []
               then (Inl (Failure Conflict 400 ''Attendance already marked for today''), s)
               else
                 (let isLate = js_gt currentTime ''08:00:00'';
                      status = (if isLate then Late else Present)
                  in (Inr \<lparr>mr_status = status, mr_time = currentTime, mr_isLate = isLate\<rparr>,
                      s\<lparr>attendance := attendance s @
                           [\<lparr>a_user_id = uid, a_date = today, a_status = status,
                             a_check_in_time = Some currentTime, a_check_out_time = None\<rparr>]\<rparr>))))"

text \<open>
  \<^verbatim>\<open>POST /manual\<close>, behind \<^verbatim>\<open>authenticateToken\<close>; the handler checks the role itself.
  \<^verbatim>\<open>userId\<close>, \<^verbatim>\<open>date\<close> and \<^verbatim>\<open>status\<close> are taken as present; \<^verbatim>\<open>checkInTime\<close> and
  \<^verbatim>\<open>checkOutTime\<close> are bound as they come: absent, they make the \<^verbatim>\<open>INSERT\<close> throw.
\<close>

record manual_body =
  mb_userId :: int
  mb_date :: date
  mb_status :: att_status
  mb_checkInTime :: jsval
  mb_checkOutTime :: jsval

definition manual :: "requester \<Rightarrow> manual_body \<Rightarrow> db \<Rightarrow> (failure + string) \<times> db" where
  "manual currentUser body s =
     (if req_role currentUser \<noteq> Admin
      then (Inl (Failure Forbidden 403 ''Access denied''), s)
      else if select_attendance (mb_userId body) (mb_date body) s \<noteq> []
      then (Inl (Failure Conflict 400 ''Attendance already marked for this date''), s)
      else if mb_checkInTime body = Undefined \<or> mb_checkOutTime body = Undefined
      then (Inl (Failure ServerError 500 ''Failed to mark attendance''), s)
      else (Inr ''Attendance marked successfully'',
            s\<lparr>attendance := attendance s @
                 [\<lparr>a_user_id = mb_userId body, a_date = mb_date body, a_status = mb_status body,
                   a_check_in_time = to_sql (mb_checkInTime body),
                   a_check_out_time = to_sql (mb_checkOutTime body)\<rparr>]\<rparr>))"











text \<open>The invariant of the attendance table: no two rows share user and day.\<close>

definition one_per_day :: "attendance_row list \<Rightarrow> bool" where
  "one_per_day rows \<longleftrightarrow> distinct (map (\<lambda>a. (a_user_id a, a_date a)) rows)"

subsection \<open>Sequential executions\<close>

text \<open>
  A request to one of the handlers above, and the database after serving a list of
  requests one after the other. The two attendance handlers are the only statements of the
  repository that write the \<^verbatim>\<open>attendance\<close> table.
\<close>

datatype request =
    CreateRoom room_body
  | AssignRoom int assign_body
  | UnassignRoom int assign_body
  | CreateUser create_user_body
  | UpdateUser requester int update_user_body
  | MarkAttendance requester qr_input date string
  | ManualAttendance requester manual_body
  | PayFee date int pay_body
  | UpdateOverdue date

fun handle :: "(string \<Rightarrow> bool) \<Rightarrow> (string \<Rightarrow> string) \<Rightarrow> request \<Rightarrow> db \<Rightarrow> db" where
  "handle isEmail hash (CreateRoom b) s = snd (create_room b s)"
| "handle isEmail hash (AssignRoom i b) s = snd (assign i b s)"
| "handle isEmail hash (UnassignRoom i b) s = snd (unassign i b s)"
| "handle isEmail hash (CreateUser b) s = snd (create_user isEmail hash b s)"
| "handle isEmail hash (UpdateUser ru i b) s = snd (update_user ru i b s)"
| "handle isEmail hash (MarkAttendance ru q d t) s = snd (mark ru q d t s)"
| "handle isEmail hash (ManualAttendance ru b) s = snd (manual ru b s)"
| "handle isEmail hash (PayFee d i b) s = snd (pay d i b s)"
| "handle isEmail hash (UpdateOverdue d) s = snd (update_overdue d s)"

definition empty_db :: db where
  "empty_db = \<lparr>users = [], rooms = [], attendance = [], fees = [],
               next_user_id = 1, next_room_id = 1\<rparr>"

definition run :: "(string \<Rightarrow> bool) \<Rightarrow> (string \<Rightarrow> string) \<Rightarrow> request list \<Rightarrow> db \<Rightarrow> db" where
  "run isEmail hash reqs s = fold (handle isEmail hash) reqs s"

text \<open>
  Every room carries a number: create room, the only \<^verbatim>\<open>INSERT\<close> into \<^verbatim>\<open>rooms\<close>, demands
  a non-empty one, and no statement of the repository rewrites \<^verbatim>\<open>rooms.room_no\<close>.
\<close>

definition rooms_numbered :: "db \<Rightarrow> bool" where
  "rooms_numbered s \<longleftrightarrow> (\<forall>r \<in> set (rooms s). r_room_no r \<noteq> [])"

subsection \<open>Example requests\<close>

definition admin_example :: requester where
  "admin_example = \<lparr>req_id = 1, req_role = Admin\<rparr>"

definition student_example :: requester where
  "student_example = \<lparr>req_id = 2, req_role = Student\<rparr>"

definition qr_example :: qr_input where
  "qr_example =
     QrParsed \<lparr>qr_userId = Some 2, qr_name = Str ''Asha'', qr_email = Str ''asha@hostel.org''\<rparr>"

definition manual_example :: manual_body where
  "manual_example =
     \<lparr>mb_userId = 2, mb_date = 20, mb_status = Absent, mb_checkInTime = Null,
      mb_checkOutTime = Null\<rparr>"

definition marked_example :: db where
  "marked_example =
     empty_db\<lparr>attendance :=
       [\<lparr>a_user_id = 2, a_date = 20, a_status = Present, a_check_in_time = Some ''07:59:59'',
         a_check_out_time = None\<rparr>]\<rparr>"

text \<open>
  A small hostel: room 101 for one, room 102 for two, an admin and the students Asha and
  Ravi; Asha is then put in room 102 and Ravi in room 101, which is full with him.
\<close>

definition room101_body :: room_body where
  "room101_body = \<lparr>rb_room_no = ''101'', rb_capacity = Some 1, rb_type = ''single'', rb_floor = Null\<rparr>"

definition room102_body :: room_body where
  "room102_body = \<lparr>rb_room_no = ''102'', rb_capacity = Some 2, rb_type = ''double'', rb_floor = Null\<rparr>"

definition person_body :: "string \<Rightarrow> string \<Rightarrow> role \<Rightarrow> jsval \<Rightarrow> create_user_body" where
  "person_body n e r rn =
     \<lparr>cu_name = n, cu_email = e, cu_password = ''secret1'', cu_role = Some r, cu_room_no = rn,
      cu_batch = Null, cu_phone = Null\<rparr>"

definition setup_requests :: "request list" where
  "setup_requests =
     [CreateRoom room101_body, CreateRoom room102_body,
      CreateUser (person_body ''Warden'' ''warden@hostel.org'' Admin Null),
      CreateUser (person_body ''Asha'' ''asha@hostel.org'' Student Null),
      CreateUser (person_body ''Ravi'' ''ravi@hostel.org'' Student Null),
      AssignRoom 2 \<lparr>studentId = Some 2\<rparr>,
      AssignRoom 1 \<lparr>studentId = Some 3\<rparr>]"


definition person :: "int \<Rightarrow> string \<Rightarrow> string \<Rightarrow> role \<Rightarrow> string option \<Rightarrow> user" where
  "person i n e r rn =
     \<lparr>u_id = i, u_name = n, u_email = e, u_password = ''secret1'', u_role = r, u_room_no = rn,
      u_batch = None, u_phone = None, u_photo = None, u_is_active = True\<rparr>"

definition hostel_rooms :: "int \<Rightarrow> int \<Rightarrow> room list" where
  "hostel_rooms o1 o2 =
     [(new_room 1 ''101'' 1 ''single'' None)\<lparr>r_occupied := o1\<rparr>,
      (new_room 2 ''102'' 2 ''double'' None)\<lparr>r_occupied := o2\<rparr>]"

definition hostel_users :: "string option \<Rightarrow> string option \<Rightarrow> user list" where
  "hostel_users asha_room ravi_room =
     [person 1 ''Warden'' ''warden@hostel.org'' Admin None,
      person 2 ''Asha'' ''asha@hostel.org'' Student asha_room,
      person 3 ''Ravi'' ''ravi@hostel.org'' Student ravi_room]"

definition hostel :: "string option \<Rightarrow> string option \<Rightarrow> int \<Rightarrow> int \<Rightarrow> db" where
  "hostel asha_room ravi_room o1 o2 =
     \<lparr>users = hostel_users asha_room ravi_room, rooms = hostel_rooms o1 o2, attendance = [],
      fees = [], next_user_id = 4, next_room_id = 3\<rparr>"

definition hostel_example :: db where
  "hostel_example = hostel (Some ''102'') (Some ''101'') 1 1"

definition room_only_body :: "jsval \<Rightarrow> update_user_body" where
  "room_only_body rn =
     \<lparr>uu_name = Undefined, uu_email = Undefined, uu_room_no = rn, uu_batch = Undefined,
      uu_phone = Undefined, uu_is_active = None, uu_file = None\<rparr>"

text \<open>Stand-ins for the two library functions in the examples.\<close>

definition accept_email :: "string \<Rightarrow> bool" where
  "accept_email e = True"

definition plain_hash :: "string \<Rightarrow> string" where
  "plain_hash p = p"




section \<open>Fee ledger: properties\<close>

lemma mark_overdue_idem: "mark_overdue today (mark_overdue today f) = mark_overdue today f"
  by (simp add: mark_overdue_def is_past_due_def)

lemma mark_overdue_later:
  "t1 \<le> t2 \<Longrightarrow> mark_overdue t2 (mark_overdue t1 f) = mark_overdue t2 f"
  by (auto simp add: mark_overdue_def is_past_due_def)

lemma fees_update_overdue: "fees (snd (update_overdue today s)) = map (mark_overdue today) (fees s)"
  by (simp add: update_overdue_def)

text \<open>
  Claim C5. The overdue sweep rewrites exactly the fees that are pending with a due date
  strictly before today, to overdue; every other fee (paid, already overdue, or pending and
  not yet past due) and every other table is left as it was; and sweeping twice on the same
  day gives the same database as sweeping once.
\<close>

theorem update_overdue_exact_and_idempotent:
  "snd (update_overdue today (snd (update_overdue today s))) = snd (update_overdue today s)
   \<and> length (fees (snd (update_overdue today s))) = length (fees s)
   \<and> (\<forall>k < length (fees s).
         (f_status (fees s ! k) = Pending \<and> f_due_date (fees s ! k) < today \<longrightarrow>
            fees (snd (update_overdue today s)) ! k = (fees s ! k)\<lparr>f_status := Overdue\<rparr>)
       \<and> (\<not> (f_status (fees s ! k) = Pending \<and> f_due_date (fees s ! k) < today) \<longrightarrow>
            fees (snd (update_overdue today s)) ! k = fees s ! k))
   \<and> users (snd (update_overdue today s)) = users s
   \<and> rooms (snd (update_overdue today s)) = rooms s
   \<and> attendance (snd (update_overdue today s)) = attendance s"
proof -
  have idem: "snd (update_overdue today (snd (update_overdue today s))) = snd (update_overdue today s)"
    by (simp add: update_overdue_def mark_overdue_idem)
  have len: "length (fees (snd (update_overdue today s))) = length (fees s)"
    by (simp add: fees_update_overdue)
  have rows: "\<forall>k < length (fees s).
         (f_status (fees s ! k) = Pending \<and> f_due_date (fees s ! k) < today \<longrightarrow>
            fees (snd (update_overdue today s)) ! k = (fees s ! k)\<lparr>f_status := Overdue\<rparr>)
       \<and> (\<not> (f_status (fees s ! k) = Pending \<and> f_due_date (fees s ! k) < today) \<longrightarrow>
            fees (snd (update_overdue today s)) ! k = fees s ! k)"
    by (simp add: fees_update_overdue mark_overdue_def is_past_due_def)
  have frame: "users (snd (update_overdue today s)) = users s
     \<and> rooms (snd (update_overdue today s)) = rooms s
     \<and> attendance (snd (update_overdue today s)) = attendance s"
    by (simp add: update_overdue_def)
  from idem len rows frame show ?thesis by blast
qed

theorem update_overdue_exact_and_idempotent_witness:
  "fees (snd (update_overdue 100 ledger_example)) =
     [fee_example 1 99 Overdue, fee_example 2 99 Paid, fee_example 3 50 Overdue,
      fee_example 4 100 Pending]
   \<and> snd (update_overdue 100 (snd (update_overdue 100 ledger_example)))
       = snd (update_overdue 100 ledger_example)"
  using update_overdue_exact_and_idempotent [of 100 ledger_example]
  by (simp add: update_overdue_def mark_overdue_def is_past_due_def ledger_example_def
      fee_example_def)








section \<open>Attendance: properties\<close>

subsection \<open>The cutoff comparison\<close>

lemma of_char_digit: "n < 10 \<Longrightarrow> (of_char (digit n) :: nat) = 48 + n"
  by (simp add: digit_def)

lemma js_gt_time_digits:
  assumes "h < 100" "m < 60" "sec < 60"
  shows "js_gt (time_string h m sec) ''08:00:00'' \<longleftrightarrow>
      (0 < h div 10 \<or> (h div 10 = 0 \<and> (8 < h mod 10 \<or> (h mod 10 = 8 \<and>
        (0 < m div 10 \<or> (m div 10 = 0 \<and> (0 < m mod 10 \<or> (m mod 10 = 0 \<and>
          (0 < sec div 10 \<or> (sec div 10 = 0 \<and> 0 < sec mod 10))))))))))"
proof -
  have d: "h div 10 < 10" "h mod 10 < 10" "m div 10 < 10" "m mod 10 < 10"
    "sec div 10 < 10" "sec mod 10 < 10"
    using assms by simp_all
  show ?thesis
    by (simp add: time_string_def pad2_def of_char_digit d)
qed

text \<open>On clock strings the comparison of strings is the comparison of the times.\<close>

lemma js_gt_time:
  assumes "h < 100" "m < 60" "sec < 60"
  shows "js_gt (time_string h m sec) ''08:00:00'' \<longleftrightarrow> 8 * 3600 < h * 3600 + m * 60 + sec"
proof -
  have dh: "0 < h div 10 \<longleftrightarrow> 10 \<le> h" "h div 10 = 0 \<longleftrightarrow> h < 10"
    and dm: "0 < m div 10 \<longleftrightarrow> 10 \<le> m" "m div 10 = 0 \<longleftrightarrow> m < 10"
    and ds: "0 < sec div 10 \<longleftrightarrow> 10 \<le> sec" "sec div 10 = 0 \<longleftrightarrow> sec < 10"
    by (simp_all add: div_greater_zero_iff div_eq_0_iff)
  have "js_gt (time_string h m sec) ''08:00:00'' \<longleftrightarrow> 8 < h \<or> (h = 8 \<and> (0 < m \<or> 0 < sec))"
    unfolding js_gt_time_digits [OF assms] dh dm ds
    by (cases "h < 10"; cases "m < 10"; cases "sec < 10") auto
  also have "\<dots> \<longleftrightarrow> 8 * 3600 < h * 3600 + m * 60 + sec"
    using assms by arith
  finally show ?thesis .
qed

lemma mark_success_shape:
  assumes "fst (mark cu q today t s) = Inr res"
  shows "\<exists>uid. mark cu q today t s =
           (Inr \<lparr>mr_status = (if js_gt t ''08:00:00'' then Late else Present), mr_time = t,
                 mr_isLate = js_gt t ''08:00:00''\<rparr>,
            s\<lparr>attendance := attendance s @
                 [\<lparr>a_user_id = uid, a_date = today,
                   a_status = (if js_gt t ''08:00:00'' then Late else Present),
                   a_check_in_time = Some t, a_check_out_time = None\<rparr>]\<rparr>)
         \<and> select_attendance uid today s = []"
  using assms
  by (auto simp add: mark_def Let_def split: qr_input.splits option.splits if_splits)

text \<open>
  Claim C4. Whenever the QR mark succeeds at local time \<open>h:m:sec\<close>, the status returned, which
  is also the status of the row inserted, is late exactly when the time of day is strictly
  after 08:00:00 and present otherwise; a mark at 08:00:00 sharp is present.
\<close>

theorem mark_late_iff_after_cutoff:
  assumes "h < 24" and "m < 60" and "sec < 60"
    and "fst (mark cu q today (time_string h m sec) s) = Inr res"
  shows "(mr_status res = Late \<longleftrightarrow> 8 * 3600 < h * 3600 + m * 60 + sec)
       \<and> (mr_status res = Present \<longleftrightarrow> h * 3600 + m * 60 + sec \<le> 8 * 3600)
       \<and> attendance (snd (mark cu q today (time_string h m sec) s)) \<noteq> []
       \<and> a_status (last (attendance (snd (mark cu q today (time_string h m sec) s))))
           = mr_status res"
proof -
  have cut: "js_gt (time_string h m sec) ''08:00:00'' \<longleftrightarrow> 8 * 3600 < h * 3600 + m * 60 + sec"
    using assms(1-3) by (intro js_gt_time) simp_all
  from mark_success_shape [OF assms(4)] obtain uid where
    run: "mark cu q today (time_string h m sec) s =
           (Inr \<lparr>mr_status = (if js_gt (time_string h m sec) ''08:00:00'' then Late else Present),
                 mr_time = time_string h m sec,
                 mr_isLate = js_gt (time_string h m sec) ''08:00:00''\<rparr>,
            s\<lparr>attendance := attendance s @
                 [\<lparr>a_user_id = uid, a_date = today,
                   a_status = (if js_gt (time_string h m sec) ''08:00:00'' then Late else Present),
                   a_check_in_time = Some (time_string h m sec), a_check_out_time = None\<rparr>]\<rparr>)"
    by blast
  from run assms(4)
  have res: "mr_status res = (if js_gt (time_string h m sec) ''08:00:00'' then Late else Present)"
    by auto
  from res cut have a: "mr_status res = Late \<longleftrightarrow> 8 * 3600 < h * 3600 + m * 60 + sec"
    by simp
  from res cut have b: "mr_status res = Present \<longleftrightarrow> h * 3600 + m * 60 + sec \<le> 8 * 3600"
    by auto
  from run res have c:
    "attendance (snd (mark cu q today (time_string h m sec) s)) \<noteq> []
     \<and> a_status (last (attendance (snd (mark cu q today (time_string h m sec) s)))) = mr_status res"
    by simp
  from a b c show ?thesis by blast
qed

lemma time_string_examples:
  "time_string 7 59 59 = ''07:59:59''"
  "time_string 8 0 0 = ''08:00:00''"
  "time_string 8 0 1 = ''08:00:01''"
  by code_simp+

theorem mark_late_iff_after_cutoff_witness:
  "fst (mark student_example qr_example 20 (time_string 7 59 59) empty_db)
     = Inr \<lparr>mr_status = Present, mr_time = ''07:59:59'', mr_isLate = False\<rparr>
   \<and> fst (mark student_example qr_example 20 (time_string 8 0 0) empty_db)
     = Inr \<lparr>mr_status = Present, mr_time = ''08:00:00'', mr_isLate = False\<rparr>
   \<and> fst (mark student_example qr_example 20 (time_string 8 0 1) empty_db)
     = Inr \<lparr>mr_status = Late, mr_time = ''08:00:01'', mr_isLate = True\<rparr>
   \<and> a_status (last (attendance (snd (mark student_example qr_example 20 (time_string 8 0 1)
        empty_db)))) = Late"
proof -
  have a: "fst (mark student_example qr_example 20 (time_string 7 59 59) empty_db)
     = Inr \<lparr>mr_status = Present, mr_time = ''07:59:59'', mr_isLate = False\<rparr>"
    unfolding time_string_examples
    by (simp add: mark_def student_example_def qr_example_def empty_db_def select_attendance_def)
  have b: "fst (mark student_example qr_example 20 (time_string 8 0 0) empty_db)
     = Inr \<lparr>mr_status = Present, mr_time = ''08:00:00'', mr_isLate = False\<rparr>"
    unfolding time_string_examples
    by (simp add: mark_def student_example_def qr_example_def empty_db_def select_attendance_def)
  have c: "fst (mark student_example qr_example 20 (time_string 8 0 1) empty_db)
     = Inr \<lparr>mr_status = Late, mr_time = ''08:00:01'', mr_isLate = True\<rparr>"
    unfolding time_string_examples
    by (simp add: mark_def student_example_def qr_example_def empty_db_def select_attendance_def)
  have d: "a_status (last (attendance (snd (mark student_example qr_example 20
        (time_string 8 0 1) empty_db)))) = Late"
    using mark_late_iff_after_cutoff [OF _ _ _ c] by simp
  from a b c d show ?thesis by blast
qed

subsection \<open>One record per user and day\<close>

lemma one_per_day_append:
  "one_per_day (rows @ [a]) \<longleftrightarrow>
     one_per_day rows \<and> (a_user_id a, a_date a) \<notin> set (map (\<lambda>a. (a_user_id a, a_date a)) rows)"
  by (auto simp add: one_per_day_def)

lemma select_attendance_empty_iff:
  "select_attendance uid d s = [] \<longleftrightarrow>
     (uid, d) \<notin> set (map (\<lambda>a. (a_user_id a, a_date a)) (attendance s))"
  by (auto simp add: select_attendance_def filter_empty_conv)

lemma distinct_keys_filter_le_1:
  "distinct (map key rows) \<Longrightarrow> length (filter (\<lambda>a. key a = k) rows) \<le> 1"
proof (induction rows)
  case Nil
  then show ?case by simp
next
  case (Cons a rows)
  show ?case
  proof (cases "key a = k")
    case True
    with Cons.prems have "k \<notin> key ` set rows" by auto
    then have "filter (\<lambda>a. key a = k) rows = []" by (auto simp add: filter_empty_conv)
    with True show ?thesis by simp
  next
    case False
    with Cons show ?thesis by simp
  qed
qed

lemma one_per_day_select_le_1:
  assumes "one_per_day (attendance s)"
  shows "length (select_attendance uid d s) \<le> 1"
proof -
  have "select_attendance uid d s
          = filter (\<lambda>a. (a_user_id a, a_date a) = (uid, d)) (attendance s)"
    by (simp add: select_attendance_def)
  with distinct_keys_filter_le_1 [of "\<lambda>a. (a_user_id a, a_date a)" "attendance s" "(uid, d)"]
    assms show ?thesis by (simp add: one_per_day_def)
qed

lemma mark_conflict:
  assumes "qr_userId q = Some uid" "uid \<noteq> 0" "truthy (qr_name q)" "truthy (qr_email q)"
    and "req_role cu = Student \<longrightarrow> uid = req_id cu"
    and "select_attendance uid today s \<noteq> []"
  shows "mark cu (QrParsed q) today t s
           = (Inl (Failure Conflict 400 ''Attendance already marked for today''), s)"
  using assms by (auto simp add: mark_def)

lemma manual_conflict:
  assumes "req_role cu = Admin" "select_attendance (mb_userId b) (mb_date b) s \<noteq> []"
  shows "manual cu b s = (Inl (Failure Conflict 400 ''Attendance already marked for this date''), s)"
  using assms by (simp add: manual_def)

lemma mark_preserves_one_per_day:
  "one_per_day (attendance s) \<Longrightarrow> one_per_day (attendance (snd (mark cu q today t s)))"
  by (auto simp add: mark_def Let_def one_per_day_append select_attendance_empty_iff
      split: qr_input.splits option.splits)

lemma manual_preserves_one_per_day:
  "one_per_day (attendance s) \<Longrightarrow> one_per_day (attendance (snd (manual cu b s)))"
  by (auto simp add: manual_def one_per_day_append select_attendance_empty_iff)

lemma attendance_create_room: "attendance (snd (create_room b s)) = attendance s"
  by (simp add: create_room_def split: option.splits)

lemma attendance_assign: "attendance (snd (assign i b s)) = attendance s"
  by (simp add: assign_def split: option.splits list.splits)

lemma attendance_unassign: "attendance (snd (unassign i b s)) = attendance s"
  by (simp add: unassign_def split: option.splits list.splits)

lemma attendance_create_user: "attendance (snd (create_user isEmail hash b s)) = attendance s"
  by (simp add: create_user_def Let_def split: option.splits)

lemma attendance_update_user: "attendance (snd (update_user ru i b s)) = attendance s"
  by (simp add: update_user_def Let_def split: list.splits)

lemma attendance_pay: "attendance (snd (pay d i b s)) = attendance s"
  by (simp add: pay_def split: list.splits)

lemma attendance_update_overdue: "attendance (snd (update_overdue d s)) = attendance s"
  by (simp add: update_overdue_def)

lemma handle_preserves_one_per_day:
  "one_per_day (attendance s) \<Longrightarrow> one_per_day (attendance (handle isEmail hash r s))"
  by (cases r)
    (simp_all add: attendance_create_room attendance_assign attendance_unassign
      attendance_create_user attendance_update_user attendance_pay attendance_update_overdue
      mark_preserves_one_per_day manual_preserves_one_per_day)

lemma run_preserves_one_per_day:
  "one_per_day (attendance s) \<Longrightarrow> one_per_day (attendance (run isEmail hash reqs s))"
  unfolding run_def
  by (induction reqs arbitrary: s) (simp_all add: handle_preserves_one_per_day)

text \<open>
  Claim C3. A QR mark that passes the format and ownership checks, and a manual mark by an
  admin, answer Conflict and leave the database as it was when the attendance table already
  holds a row for the user and day. Hence every sequence of requests keeps the invariant that
  no two attendance rows share user and day, and in every database reached from the empty
  one at most one row exists for a user and a day.
\<close>

theorem attendance_one_record_per_user_day:
  "(qr_userId q = Some uid \<and> uid \<noteq> 0 \<and> truthy (qr_name q) \<and> truthy (qr_email q)
      \<and> (req_role cu = Student \<longrightarrow> uid = req_id cu) \<and> select_attendance uid today s \<noteq> []
    \<longrightarrow> mark cu (QrParsed q) today t s
          = (Inl (Failure Conflict 400 ''Attendance already marked for today''), s))
   \<and> (req_role cu' = Admin \<and> select_attendance (mb_userId b) (mb_date b) s \<noteq> []
    \<longrightarrow> manual cu' b s
          = (Inl (Failure Conflict 400 ''Attendance already marked for this date''), s))
   \<and> (one_per_day (attendance s) \<longrightarrow> one_per_day (attendance (run isEmail hash reqs s)))
   \<and> length (select_attendance uid d (run isEmail hash reqs empty_db)) \<le> 1"
proof -
  have "one_per_day (attendance empty_db)"
    by (simp add: empty_db_def one_per_day_def)
  then have "one_per_day (attendance (run isEmail hash reqs empty_db))"
    by (rule run_preserves_one_per_day)
  then have "length (select_attendance uid d (run isEmail hash reqs empty_db)) \<le> 1"
    by (rule one_per_day_select_le_1)
  then show ?thesis
    using mark_conflict [of q uid cu today s t] manual_conflict [of cu' b s]
      run_preserves_one_per_day [of s isEmail hash reqs]
    by blast
qed

theorem attendance_one_record_per_user_day_witness:
  "snd (mark student_example qr_example 20 ''07:59:59'' empty_db) = marked_example
   \<and> mark student_example qr_example 20 ''08:00:01'' marked_example
       = (Inl (Failure Conflict 400 ''Attendance already marked for today''), marked_example)
   \<and> manual admin_example manual_example marked_example
       = (Inl (Failure Conflict 400 ''Attendance already marked for this date''), marked_example)
   \<and> one_per_day (attendance (run accept_email plain_hash
        [MarkAttendance student_example qr_example 20 ''08:00:01'',
         ManualAttendance admin_example manual_example] marked_example))"
proof -
  have first: "snd (mark student_example qr_example 20 ''07:59:59'' empty_db) = marked_example"
    by (simp add: mark_def student_example_def qr_example_def empty_db_def marked_example_def
        select_attendance_def)
  have inv: "one_per_day (attendance marked_example)"
    by (simp add: marked_example_def one_per_day_def)
  have found: "select_attendance 2 20 marked_example \<noteq> []"
    by (simp add: marked_example_def select_attendance_def)
  from inv found show ?thesis
    using first
      attendance_one_record_per_user_day
        [where q = "\<lparr>qr_userId = Some 2, qr_name = Str ''Asha'', qr_email = Str ''asha@hostel.org''\<rparr>"
           and uid = 2 and cu = student_example and cu' = admin_example and today = 20
           and s = marked_example and t = "''08:00:01''" and b = manual_example
           and isEmail = accept_email and hash = plain_hash
           and reqs = "[MarkAttendance student_example qr_example 20 ''08:00:01'',
                        ManualAttendance admin_example manual_example]"]
    by (simp add: student_example_def admin_example_def qr_example_def manual_example_def)
qed

subsection \<open>Attendance statistics\<close>






section \<open>Occupancy: properties\<close>

lemmas handler_defs = create_room_def create_user_def assign_def unassign_def update_user_def
  new_room_def new_user_def select_active_room_def select_active_student_def select_room_def
  select_user_in_room_def set_user_room_def add_occupied_by_id_def add_occupied_by_no_def
  update_fields_def apply_fields_def adjust_occupancy_def

lemmas example_defs = room101_body_def room102_body_def person_body_def setup_requests_def
  person_def hostel_rooms_def hostel_users_def hostel_def hostel_example_def room_only_body_def
  admin_example_def student_example_def empty_db_def accept_email_def plain_hash_def


subsection \<open>Assigning a room\<close>





lemma rooms_numbered_map:
  assumes "\<And>r. r_room_no (f r) = r_room_no r" and "rooms_numbered s"
  shows "rooms_numbered (s\<lparr>rooms := map f (rooms s)\<rparr>)"
  using assms by (auto simp add: rooms_numbered_def)

















subsection \<open>Removing a student from a room\<close>

lemma unassign_not_in_room:
  assumes "studentId body = Some sid" "select_room roomId s = room0 # rest"
    and "select_user_in_room sid (r_room_no room0) s = []"
  shows "unassign roomId body s
           = (Inl (Failure Conflict 400 ''Student is not assigned to this room''), s)"
  using assms by (simp add: unassign_def)

lemma unassign_success:
  assumes "studentId body = Some sid" "select_room roomId s = room0 # rest"
    and "select_user_in_room sid (r_room_no room0) s \<noteq> []"
  shows "unassign roomId body s
           = (Inr ''Student removed from room successfully'',
              s\<lparr>users := map (set_user_room sid None) (users s),
                rooms := map (add_occupied_by_id roomId (- 1)) (rooms s)\<rparr>)"
  using assms by (simp add: unassign_def split: list.splits)

text \<open>
  Claim C7, as amended. For an existing room and an integer student id: unassign answers
  Conflict, changing nothing, when no user row has that id together with the room's number;
  otherwise it succeeds, clears the room number of every user row with that id and lowers the
  occupied count of every room row with that id by exactly 1, whatever the count was: the
  handler applies no floor.
\<close>

theorem unassign_outcomes:
  assumes "studentId body = Some sid" and "select_room roomId s = room0 # rest"
  shows "(select_user_in_room sid (r_room_no room0) s = [] \<longrightarrow>
            unassign roomId body s
              = (Inl (Failure Conflict 400 ''Student is not assigned to this room''), s))
       \<and> (select_user_in_room sid (r_room_no room0) s \<noteq> [] \<longrightarrow>
            fst (unassign roomId body s) = Inr ''Student removed from room successfully''
          \<and> length (users (snd (unassign roomId body s))) = length (users s)
          \<and> (\<forall>k < length (users s).
                (u_id (users s ! k) = sid \<longrightarrow>
                   users (snd (unassign roomId body s)) ! k = (users s ! k)\<lparr>u_room_no := None\<rparr>)
              \<and> (u_id (users s ! k) \<noteq> sid \<longrightarrow>
                   users (snd (unassign roomId body s)) ! k = users s ! k))
          \<and> length (rooms (snd (unassign roomId body s))) = length (rooms s)
          \<and> (\<forall>k < length (rooms s).
                (r_id (rooms s ! k) = roomId \<longrightarrow>
                   rooms (snd (unassign roomId body s)) ! k
                     = (rooms s ! k)\<lparr>r_occupied := r_occupied (rooms s ! k) - 1\<rparr>)
              \<and> (r_id (rooms s ! k) \<noteq> roomId \<longrightarrow>
                   rooms (snd (unassign roomId body s)) ! k = rooms s ! k))
          \<and> attendance (snd (unassign roomId body s)) = attendance s
          \<and> fees (snd (unassign roomId body s)) = fees s)"
proof (cases "select_user_in_room sid (r_room_no room0) s = []")
  case True
  with unassign_not_in_room [OF assms] show ?thesis by simp
next
  case False
  with unassign_success [OF assms] show ?thesis
    by (simp add: set_user_room_def add_occupied_by_id_def)
qed

theorem unassign_outcomes_witness:
  "unassign 1 \<lparr>studentId = Some 2\<rparr> hostel_example
     = (Inl (Failure Conflict 400 ''Student is not assigned to this room''), hostel_example)
   \<and> fst (unassign 2 \<lparr>studentId = Some 2\<rparr> hostel_example)
     = Inr ''Student removed from room successfully''
   \<and> users (snd (unassign 2 \<lparr>studentId = Some 2\<rparr> hostel_example)) ! 1
     = person 2 ''Asha'' ''asha@hostel.org'' Student None
   \<and> r_occupied (rooms (snd (unassign 2 \<lparr>studentId = Some 2\<rparr> hostel_example)) ! 1) = 0"
proof -
  have r1: "select_room 1 hostel_example = [(new_room 1 ''101'' 1 ''single'' None)\<lparr>r_occupied := 1\<rparr>]"
    and r2: "select_room 2 hostel_example = [(new_room 2 ''102'' 2 ''double'' None)\<lparr>r_occupied := 1\<rparr>]"
    by (simp_all add: select_room_def example_defs new_room_def)
  have u1: "select_user_in_room 2 ''101'' hostel_example = []"
    and u2: "select_user_in_room 2 ''102'' hostel_example \<noteq> []"
    by (simp_all add: select_user_in_room_def example_defs)
  have b: "studentId \<lparr>studentId = Some n\<rparr> = Some n" for n :: int
    by simp
  show ?thesis
    using unassign_outcomes [OF b r1, of 2] unassign_outcomes [OF b r2, of 2] u1 u2
    by (simp add: example_defs new_room_def)
qed

text \<open>
  Claim C7 as stated fails at a room whose occupied count is 0 while a student carries its
  number (a student's own profile update writes the number and adjusts no count): unassign
  succeeds and leaves the count at -1.
\<close>

theorem unassign_below_zero_counterexample:
  "run accept_email plain_hash
       [UnassignRoom 2 \<lparr>studentId = Some 2\<rparr>,
        UpdateUser student_example 2 (room_only_body (Str ''102''))] hostel_example
     = hostel (Some ''102'') (Some ''101'') 1 0
   \<and> unassign 2 \<lparr>studentId = Some 2\<rparr> (hostel (Some ''102'') (Some ''101'') 1 0)
     = (Inr ''Student removed from room successfully'', hostel None (Some ''101'') 1 (- 1))
   \<and> r_occupied (rooms (hostel None (Some ''101'') 1 (- 1)) ! 1) < 0"
  by (simp add: run_def handler_defs example_defs)

subsection \<open>Updating a user\<close>

text \<open>
  Claim C1. In the example hostel Asha is in room 102, which is not full, and room 101 is
  full with Ravi. An admin's update of Asha with \<^verbatim>\<open>room_no = '101'\<close> does not answer
  Conflict: it succeeds, Asha's room number becomes 101, room 102 drops to 0 occupants and
  room 101 rises to 2 occupants with capacity 1. The assign route rejects the same move
  into room 101 with 'Room is full'.
\<close>

theorem update_user_moves_student_into_full_room:
  "run accept_email plain_hash setup_requests empty_db = hostel_example
   \<and> map (\<lambda>r. (r_room_no r, r_capacity r, r_occupied r)) (rooms hostel_example)
       = [(''101'', 1, 1), (''102'', 2, 1)]
   \<and> update_user admin_example 2 (room_only_body (Str ''101'')) hostel_example
       = (Inr ''User updated successfully'', hostel (Some ''101'') (Some ''101'') 2 0)
   \<and> map (\<lambda>r. (r_room_no r, r_capacity r, r_occupied r))
         (rooms (hostel (Some ''101'') (Some ''101'') 2 0))
       = [(''101'', 1, 2), (''102'', 2, 0)]
   \<and> fst (assign 1 \<lparr>studentId = Some 2\<rparr> (hostel None (Some ''101'') 1 0))
       = Inl (Failure Conflict 400 ''Room is full'')"
  by (simp add: run_def handler_defs example_defs)

lemma room_no_after_fields:
  "u_room_no (fold (\<lambda>f v. f v) (update_fields r body) u)
     = (if uu_room_no body \<noteq> Undefined then to_sql (uu_room_no body) else u_room_no u)"
  by (simp add: update_fields_def split: option.splits)

lemma update_user_student_rooms: 
  "req_role ru = Student \<Longrightarrow> rooms (snd (update_user ru i body s)) = rooms s"
  by (simp add: update_user_def Let_def split: list.splits)

lemma update_user_student_ignores_rooms:
  "req_role ru = Student \<Longrightarrow>
   update_user ru i body (s\<lparr>rooms := rs\<rparr>)
     = (fst (update_user ru i body s), (snd (update_user ru i body s))\<lparr>rooms := rs\<rparr>)"
  by (simp add: update_user_def Let_def split: list.splits)

lemma update_user_student_success:
  assumes "req_role ru = Student" and "req_id ru = i"
    and "filter (\<lambda>u. u_id u = i) (users s) = cur # rest"
    and "\<not> (truthy (uu_email body) \<and> str_of (uu_email body) \<noteq> u_email cur
            \<and> filter (\<lambda>u. u_email u = str_of (uu_email body) \<and> u_id u \<noteq> i) (users s) \<noteq> [])"
    and "uu_room_no body \<noteq> Undefined"
  shows "update_user ru i body s
           = (Inr ''User updated successfully'',
              s\<lparr>users := map (apply_fields i (update_fields Student body)) (users s)\<rparr>)"
proof -
  have "update_fields Student body \<noteq> []"
    using assms(5) by (simp add: update_fields_def)
  with assms show ?thesis
    by (simp add: update_user_def Let_def)
qed

text \<open>
  Claim C9. When a student updates their own profile and the request carries
  \<^verbatim>\<open>room_no\<close> (and the e-mail check passes), the update succeeds, the user's
  \<^verbatim>\<open>room_no\<close> column takes the value sent, rows of other users are unchanged, and the
  rooms table is exactly what it was: no occupied count moves. The answer and the users
  written are the same whatever the rooms table holds, so neither the existence nor the
  capacity of the new room is looked at.
\<close>

theorem update_user_by_student_leaves_rooms:
  assumes "req_role ru = Student" and "req_id ru = i"
    and "filter (\<lambda>u. u_id u = i) (users s) = cur # rest"
    and "\<not> (truthy (uu_email body) \<and> str_of (uu_email body) \<noteq> u_email cur
            \<and> filter (\<lambda>u. u_email u = str_of (uu_email body) \<and> u_id u \<noteq> i) (users s) \<noteq> [])"
    and "uu_room_no body \<noteq> Undefined"
  shows "fst (update_user ru i body s) = Inr ''User updated successfully''
       \<and> rooms (snd (update_user ru i body s)) = rooms s
       \<and> length (users (snd (update_user ru i body s))) = length (users s)
       \<and> (\<forall>k < length (users s).
             (u_id (users s ! k) = i \<longrightarrow>
                u_room_no (users (snd (update_user ru i body s)) ! k) = to_sql (uu_room_no body))
           \<and> (u_id (users s ! k) \<noteq> i \<longrightarrow>
                users (snd (update_user ru i body s)) ! k = users s ! k))
       \<and> (\<forall>rs. update_user ru i body (s\<lparr>rooms := rs\<rparr>)
                 = (fst (update_user ru i body s), (snd (update_user ru i body s))\<lparr>rooms := rs\<rparr>))"
proof -
  note run = update_user_student_success [OF assms]
  have a: "fst (update_user ru i body s) = Inr ''User updated successfully''"
    by (simp add: run)
  have b: "rooms (snd (update_user ru i body s)) = rooms s"
    by (rule update_user_student_rooms [OF assms(1)])
  have c: "length (users (snd (update_user ru i body s))) = length (users s)"
    by (simp add: run)
  have d: "\<forall>k < length (users s).
             (u_id (users s ! k) = i \<longrightarrow>
                u_room_no (users (snd (update_user ru i body s)) ! k) = to_sql (uu_room_no body))
           \<and> (u_id (users s ! k) \<noteq> i \<longrightarrow>
                users (snd (update_user ru i body s)) ! k = users s ! k)"
    using assms(5) by (simp add: run apply_fields_def room_no_after_fields)
  have e: "\<forall>rs. update_user ru i body (s\<lparr>rooms := rs\<rparr>)
                 = (fst (update_user ru i body s), (snd (update_user ru i body s))\<lparr>rooms := rs\<rparr>)"
    using update_user_student_ignores_rooms [OF assms(1)] by blast
  from a b c d e show ?thesis by blast
qed

theorem update_user_by_student_leaves_rooms_witness:
  "update_user student_example 2 (room_only_body (Str ''999'')) hostel_example
     = (Inr ''User updated successfully'', hostel (Some ''999'') (Some ''101'') 1 1)
   \<and> update_user student_example 2 (room_only_body (Str ''101'')) hostel_example
     = (Inr ''User updated successfully'', hostel (Some ''101'') (Some ''101'') 1 1)"
proof -
  have cur: "filter (\<lambda>u. u_id u = 2) (users hostel_example)
               = [person 2 ''Asha'' ''asha@hostel.org'' Student (Some ''102'')]"
    by (simp add: example_defs)
  have role: "req_role student_example = Student" and own: "req_id student_example = 2"
    by (simp_all add: student_example_def)
  have mail: "\<not> (truthy (uu_email (room_only_body rn))
            \<and> str_of (uu_email (room_only_body rn))
                 \<noteq> u_email (person 2 ''Asha'' ''asha@hostel.org'' Student (Some ''102''))
            \<and> filter (\<lambda>u. u_email u = str_of (uu_email (room_only_body rn)) \<and> u_id u \<noteq> 2)
                 (users hostel_example) \<noteq> [])" for rn
    by (simp add: room_only_body_def)
  have given: "uu_room_no (room_only_body (Str rn)) \<noteq> Undefined" for rn
    by (simp add: room_only_body_def)
  show ?thesis
    using update_user_by_student_leaves_rooms [OF role own cur mail given, of "''999''"]
      update_user_by_student_leaves_rooms [OF role own cur mail given, of "''101''"]
    by (simp add: handler_defs example_defs)
qed

subsection \<open>Creating a user\<close>





end
